theory Spec2Isabelle
  imports Main
begin

section \<open>JavaScript values\<close>

text \<open>
  The two components of
  \<^verbatim>\<open>RecordFeedbackTaskAndQuestionnaire.content.vue\<close> hold untyped JavaScript values in
  their data: \<^verbatim>\<open>null\<close> before \<^verbatim>\<open>created()\<close>, strings from the URL query and from
  the filter events, numbers for the page. Numbers are restricted to the integers and
  \<^verbatim>\<open>NaN\<close>; array-valued query parameters are not modelled.
\<close>

datatype jsval = Undefined | Null | Str string | Number int | NaN

text \<open>
  An awaited promise either resolves or rejects. Both outcomes carry the state that the
  code has reached at that point, since assignments made before a rejection persist.
\<close>

datatype 'a outcome = Resolved 'a | Rejected 'a

definition isNil :: "jsval \<Rightarrow> bool" where
  "isNil v = (v = Undefined \<or> v = Null)"

text \<open>The operator \<^verbatim>\<open>??\<close>.\<close>

definition nullish :: "jsval \<Rightarrow> jsval \<Rightarrow> jsval" where
  "nullish v d = (if isNil v then d else v)"

text \<open>The operator \<^verbatim>\<open>===\<close>; \<^verbatim>\<open>!==\<close> is its negation.\<close>

definition strict_eq :: "jsval \<Rightarrow> jsval \<Rightarrow> bool" where
  "strict_eq a b = (a = b \<and> a \<noteq> NaN)"

definition lower_char :: "char \<Rightarrow> char" where
  "lower_char c =
     (let n = (of_char c :: nat) in if 65 \<le> n \<and> n \<le> 90 then char_of (n + 32) else c)"

definition toLowerCase :: "string \<Rightarrow> string" where
  "toLowerCase s = map lower_char s"

fun digits :: "nat \<Rightarrow> string" where
  "digits n =
     (if n < 10 then [char_of (48 + n)] else digits (n div 10) @ [char_of (48 + n mod 10)])"

declare digits.simps [simp del]

text \<open>String conversion, as a template literal \<^verbatim>\<open>`${v}`\<close> performs it.\<close>

definition to_string :: "jsval \<Rightarrow> string" where
  "to_string v =
     (case v of
        Undefined \<Rightarrow> ''undefined''
      | Null \<Rightarrow> ''null''
      | Str s \<Rightarrow> s
      | Number n \<Rightarrow> (if n < 0 then CHR ''-'' # digits (nat (- n)) else digits (nat n))
      | NaN \<Rightarrow> ''NaN'')"

text \<open>
  Numeric conversion (unary \<^verbatim>\<open>+\<close>). How a string is read as a number is a parameter:
  \<open>None\<close> stands for a string that converts to \<^verbatim>\<open>NaN\<close>.
\<close>

definition to_number :: "(string \<Rightarrow> int option) \<Rightarrow> jsval \<Rightarrow> jsval" where
  "to_number parse v =
     (case v of
        Undefined \<Rightarrow> NaN
      | Null \<Rightarrow> Number 0
      | Str s \<Rightarrow> (case parse s of None \<Rightarrow> NaN | Some n \<Rightarrow> Number n)
      | Number n \<Rightarrow> Number n
      | NaN \<Rightarrow> NaN)"

fun num_add :: "jsval \<Rightarrow> jsval \<Rightarrow> jsval" where
  "num_add (Number x) (Number y) = Number (x + y)"
| "num_add _ _ = NaN"

fun num_sub :: "jsval \<Rightarrow> jsval \<Rightarrow> jsval" where
  "num_sub (Number x) (Number y) = Number (x - y)"
| "num_sub _ _ = NaN"

fun num_lt :: "jsval \<Rightarrow> jsval \<Rightarrow> bool" where
  "num_lt (Number x) (Number y) = (x < y)"
| "num_lt _ _ = False"

fun str_lt :: "string \<Rightarrow> string \<Rightarrow> bool" where
  "str_lt [] [] = False"
| "str_lt [] (y # ys) = True"
| "str_lt (x # xs) [] = False"
| "str_lt (x # xs) (y # ys) =
     ((of_char x :: nat) < of_char y \<or> ((of_char x :: nat) = of_char y \<and> str_lt xs ys))"

text \<open>The operators \<^verbatim>\<open>+\<close>, \<^verbatim>\<open>-\<close> and \<^verbatim>\<open><\<close>.\<close>

definition js_add :: "(string \<Rightarrow> int option) \<Rightarrow> jsval \<Rightarrow> jsval \<Rightarrow> jsval" where
  "js_add parse a b =
     (case a of
        Str x \<Rightarrow> Str (x @ to_string b)
      | _ \<Rightarrow> (case b of
                Str y \<Rightarrow> Str (to_string a @ y)
              | _ \<Rightarrow> num_add (to_number parse a) (to_number parse b)))"

definition js_sub :: "(string \<Rightarrow> int option) \<Rightarrow> jsval \<Rightarrow> jsval \<Rightarrow> jsval" where
  "js_sub parse a b = num_sub (to_number parse a) (to_number parse b)"

definition js_lt :: "(string \<Rightarrow> int option) \<Rightarrow> jsval \<Rightarrow> jsval \<Rightarrow> bool" where
  "js_lt parse a b =
     (case a of
        Str x \<Rightarrow> (case b of
                    Str y \<Rightarrow> str_lt x y
                  | _ \<Rightarrow> num_lt (to_number parse a) (to_number parse b))
      | _ \<Rightarrow> num_lt (to_number parse a) (to_number parse b))"

text \<open>Truthiness of \<^verbatim>\<open>v?.length\<close>: only a non-empty string has a non-zero length.\<close>

definition has_length :: "jsval \<Rightarrow> bool" where
  "has_length v = (case v of Str s \<Rightarrow> s \<noteq> [] | _ \<Rightarrow> False)"


section \<open>The record page: \<^verbatim>\<open>RecordFeedbackTaskAndQuestionnaireComponent\<close>\<close>

subsection \<open>What the component imports\<close>

text \<open>
  The view model (\<^verbatim>\<open>useRecordFeedbackTaskViewModel\<close>), the constant
  \<^verbatim>\<open>RECORD_STATUS.PENDING\<close> and the translation function \<^verbatim>\<open>$t\<close> are imported by the
  component; they are parameters here. \<open>'v\<close> is the state of the view model, which holds
  the loaded records.
\<close>

record 'v view_model =
  PENDING :: string
  string_to_number :: "string \<Rightarrow> int option"
  translate :: "string \<Rightarrow> string"
  existsRecordOn :: "'v \<Rightarrow> jsval \<Rightarrow> bool"
  records_total :: "'v \<Rightarrow> jsval"
  clearRecords :: "'v \<Rightarrow> 'v"
  loadRecords :: "string \<Rightarrow> jsval \<Rightarrow> jsval \<Rightarrow> jsval \<Rightarrow> 'v \<Rightarrow> 'v outcome"
  loadMetrics :: "string \<Rightarrow> 'v \<Rightarrow> 'v"

subsection \<open>Notifications and events\<close>

text \<open>
  The two callbacks of a warning notification are closures over the new filter value;
  they are represented by what they call.
\<close>

datatype action =
    ApplyStatusFilter jsval
  | ApplySearchFilter jsval
  | EmitResetStatusFilter
  | EmitResetSearchFilter

record notification =
  message :: string
  buttonText :: "string option"
  numberOfChars :: nat
  ntype :: string
  onClick :: "action option"
  onClose :: "action option"

datatype root_event = TotalRecords jsval | ResetStatusFilter | ResetSearchFilter

text \<open>
  Everything the component does to the outside, in the order in which it happens: calls
  of the view model, events emitted on \<^verbatim>\<open>$root\<close>, and dispatches to \<^verbatim>\<open>Notification\<close>.
\<close>

datatype effect =
    VmClearRecords
  | VmLoadRecords string jsval jsval jsval
  | VmLoadMetrics string
  | RootEmit root_event
  | Notify notification
  | NotifyClear

subsection \<open>Data\<close>

record 'v component =
  datasetId :: string
  questionFormTouched :: bool
  recordStatusToFilterWith :: jsval
  searchTextToFilterWith :: jsval
  currentPage :: jsval
  fetching :: bool
  records :: 'v
  route_query :: "string \<Rightarrow> jsval"
  subscriptions :: "string list"
  effects :: "effect list"

definition data :: "string \<Rightarrow> 'v \<Rightarrow> (string \<Rightarrow> jsval) \<Rightarrow> 'v component" where
  "data ds v q =
     \<lparr> datasetId = ds, questionFormTouched = False, recordStatusToFilterWith = Null,
       searchTextToFilterWith = Null, currentPage = Null, fetching = False, records = v,
       route_query = q, subscriptions = [], effects = [] \<rparr>"

definition log :: "effect \<Rightarrow> 'v component \<Rightarrow> 'v component" where
  "log e s = s\<lparr>effects := effects s @ [e]\<rparr>"

subsection \<open>Computed properties\<close>

definition noMoreDataMessage :: "'v component \<Rightarrow> string" where
  "noMoreDataMessage s =
     ''You'' @ [CHR 0x27] @ ''ve reached the end of the data for the ''
       @ to_string (recordStatusToFilterWith s) @ '' queue.''"

definition statusFilterFromQuery :: "'v view_model \<Rightarrow> 'v component \<Rightarrow> jsval" where
  "statusFilterFromQuery env s =
     nullish (route_query s ''_status'') (Str (toLowerCase (PENDING env)))"

definition searchFilterFromQuery :: "'v component \<Rightarrow> jsval" where
  "searchFilterFromQuery s = nullish (route_query s ''_search'') (Str '''')"

definition pageFromQuery :: "'v view_model \<Rightarrow> 'v component \<Rightarrow> jsval" where
  "pageFromQuery env s =
     (let page = route_query s ''_page''
      in if isNil page then Number 1 else to_number (string_to_number env) page)"

subsection \<open>The fetch hook\<close>

definition load :: "'v view_model \<Rightarrow> jsval \<Rightarrow> 'v component \<Rightarrow> 'v component outcome" where
  "load env page s =
     (let s1 = log (VmLoadRecords (datasetId s) page (recordStatusToFilterWith s)
                      (searchTextToFilterWith s)) s
      in case loadRecords env (datasetId s) page (recordStatusToFilterWith s)
                (searchTextToFilterWith s) (records s) of
           Resolved v \<Rightarrow> Resolved (s1\<lparr>records := v\<rparr>)
         | Rejected v \<Rightarrow> Rejected (s1\<lparr>records := v\<rparr>))"

text \<open>The part of \<^verbatim>\<open>fetch\<close> that runs before its first \<^verbatim>\<open>await\<close>.\<close>

definition fetch_begin :: "'v view_model \<Rightarrow> 'v component \<Rightarrow> 'v component" where
  "fetch_begin env s =
     log VmClearRecords (s\<lparr>fetching := True, records := clearRecords env (records s)\<rparr>)"

definition fetch :: "'v view_model \<Rightarrow> 'v component \<Rightarrow> 'v component outcome" where
  "fetch env s =
     (if fetching s then Resolved s
      else
        let s1 = fetch_begin env s in
        case load env (currentPage s1) s1 of
          Rejected s2 \<Rightarrow> Rejected s2
        | Resolved s2 \<Rightarrow>
            let isRecordExistForCurrentPage = existsRecordOn env (records s2) (currentPage s2)
            in if \<not> isRecordExistForCurrentPage \<and> \<not> strict_eq (currentPage s2) (Number 1)
               then
                 (let s3 = s2\<lparr>currentPage := Number 1\<rparr> in
                  case load env (currentPage s3) s3 of
                    Rejected s4 \<Rightarrow> Rejected s4
                  | Resolved s4 \<Rightarrow> Resolved (s4\<lparr>fetching := False\<rparr>))
               else Resolved (s2\<lparr>fetching := False\<rparr>))"

subsection \<open>Watchers\<close>

definition watch_currentPage :: "jsval \<Rightarrow> 'v component \<Rightarrow> 'v component" where
  "watch_currentPage newValue s =
     s\<lparr>route_query := (route_query s)
          (''_page'' := newValue, ''_status'' := recordStatusToFilterWith s)\<rparr>"

definition watch_recordStatusToFilterWith :: "jsval \<Rightarrow> 'v component \<Rightarrow> 'v component" where
  "watch_recordStatusToFilterWith newValue s =
     s\<lparr>route_query := (route_query s)
          (''_status'' := newValue, ''_search'' := searchTextToFilterWith s,
           ''_page'' := currentPage s)\<rparr>"

definition watch_searchTextToFilterWith :: "jsval \<Rightarrow> 'v component \<Rightarrow> 'v component" where
  "watch_searchTextToFilterWith newValue s =
     s\<lparr>route_query := (route_query s)
          (''_search'' := newValue, ''_status'' := recordStatusToFilterWith s,
           ''_page'' := currentPage s)\<rparr>"

subsection \<open>Lifecycle and methods\<close>

definition created :: "'v view_model \<Rightarrow> 'v component \<Rightarrow> 'v component" where
  "created env s =
     (let s1 = s\<lparr>recordStatusToFilterWith := statusFilterFromQuery env s\<rparr>;
          s2 = s1\<lparr>searchTextToFilterWith := searchFilterFromQuery s1\<rparr>;
          s3 = s2\<lparr>currentPage := pageFromQuery env s2\<rparr>
      in log (VmLoadMetrics (datasetId s3))
           (s3\<lparr>records := loadMetrics env (datasetId s3) (records s3)\<rparr>))"

definition checkAndEmitTotalRecords :: "jsval \<Rightarrow> jsval \<Rightarrow> 'v component \<Rightarrow> 'v component" where
  "checkAndEmitTotalRecords searchFilter val s =
     (if has_length searchFilter then log (RootEmit (TotalRecords val)) s
      else log (RootEmit (TotalRecords Null)) s)"

text \<open>
  \<^verbatim>\<open>this.$fetch()\<close> is a call of the fetch hook above. The value passed with
  \<^verbatim>\<open>total-records\<close> is read after the \<^verbatim>\<open>await\<close>.
\<close>

definition applyStatusFilter ::
  "'v view_model \<Rightarrow> jsval \<Rightarrow> 'v component \<Rightarrow> 'v component outcome" where
  "applyStatusFilter env status s =
     (let s1 = s\<lparr>currentPage := Number 1\<rparr>;
          s2 = s1\<lparr>recordStatusToFilterWith := status\<rparr>
      in case fetch env s2 of
           Rejected s3 \<Rightarrow> Rejected s3
         | Resolved s3 \<Rightarrow>
             Resolved (checkAndEmitTotalRecords (searchTextToFilterWith s3)
                         (records_total env (records s3)) s3))"

definition applySearchFilter ::
  "'v view_model \<Rightarrow> jsval \<Rightarrow> 'v component \<Rightarrow> 'v component outcome" where
  "applySearchFilter env searchFilter s =
     (let s1 = s\<lparr>currentPage := Number 1\<rparr>;
          s2 = s1\<lparr>searchTextToFilterWith := searchFilter\<rparr>
      in case fetch env s2 of
           Rejected s3 \<Rightarrow> Rejected s3
         | Resolved s3 \<Rightarrow>
             Resolved (checkAndEmitTotalRecords searchFilter
                         (records_total env (records s3)) s3))"

definition emitResetStatusFilter :: "'v component \<Rightarrow> 'v component" where
  "emitResetStatusFilter s = log (RootEmit ResetStatusFilter) s"

definition emitResetSearchFilter :: "'v component \<Rightarrow> 'v component" where
  "emitResetSearchFilter s = log (RootEmit ResetSearchFilter) s"

definition unsaved_changes_warning :: "'v view_model \<Rightarrow> action \<Rightarrow> action \<Rightarrow> notification" where
  "unsaved_changes_warning env click close =
     \<lparr> message = translate env ''changes_no_submit'',
       buttonText = Some (translate env ''button.ignore_and_continue''),
       numberOfChars = 500, ntype = ''warning'',
       onClick = Some click, onClose = Some close \<rparr>"

definition onSearchFilterChanged ::
  "'v view_model \<Rightarrow> jsval \<Rightarrow> 'v component \<Rightarrow> 'v component outcome" where
  "onSearchFilterChanged env newSearchValue s =
     (if questionFormTouched s \<and> \<not> strict_eq newSearchValue (searchFilterFromQuery s)
      then Resolved (log (Notify (unsaved_changes_warning env
                            (ApplySearchFilter newSearchValue) EmitResetSearchFilter)) s)
      else if \<not> strict_eq newSearchValue (searchFilterFromQuery s)
      then applySearchFilter env newSearchValue s
      else Resolved s)"

definition onStatusFilterChanged ::
  "'v view_model \<Rightarrow> jsval \<Rightarrow> 'v component \<Rightarrow> 'v component outcome" where
  "onStatusFilterChanged env newStatus s =
     (if strict_eq (recordStatusToFilterWith s) newStatus then Resolved s
      else if questionFormTouched s
      then Resolved (log (Notify (unsaved_changes_warning env
                            (ApplyStatusFilter newStatus) EmitResetStatusFilter)) s)
      else applyStatusFilter env newStatus s)"

text \<open>What a click on the button of a notification, or closing it, runs.\<close>

fun run_action :: "'v view_model \<Rightarrow> action \<Rightarrow> 'v component \<Rightarrow> 'v component outcome" where
  "run_action env (ApplyStatusFilter newStatus) s = applyStatusFilter env newStatus s"
| "run_action env (ApplySearchFilter newSearchValue) s = applySearchFilter env newSearchValue s"
| "run_action env EmitResetStatusFilter s = Resolved (emitResetStatusFilter s)"
| "run_action env EmitResetSearchFilter s = Resolved (emitResetSearchFilter s)"

definition onQuestionFormTouched :: "bool \<Rightarrow> 'v component \<Rightarrow> 'v component" where
  "onQuestionFormTouched isTouched s = s\<lparr>questionFormTouched := isTouched\<rparr>"

definition no_more_data_notice :: "'v component \<Rightarrow> notification" where
  "no_more_data_notice s =
     \<lparr> message = noMoreDataMessage s, buttonText = None,
       numberOfChars = length (noMoreDataMessage s), ntype = ''info'',
       onClick = None, onClose = None \<rparr>"

text \<open>The part of \<^verbatim>\<open>setCurrentPage\<close> after the record on the new page has been looked for.\<close>

definition setCurrentPage_finish ::
  "'v view_model \<Rightarrow> jsval \<Rightarrow> bool \<Rightarrow> 'v component \<Rightarrow> 'v component" where
  "setCurrentPage_finish env newPage isNextRecordExist s =
     (let s1 =
        (if isNextRecordExist then s\<lparr>currentPage := newPage\<rparr>
         else if js_lt (string_to_number env) (currentPage s) newPage
         then log (Notify (no_more_data_notice s)) s
         else s)
      in s1\<lparr>fetching := False\<rparr>)"

text \<open>The part of \<^verbatim>\<open>setCurrentPage\<close> that runs before its \<^verbatim>\<open>await\<close>.\<close>

definition setCurrentPage_begin :: "'v component \<Rightarrow> 'v component" where
  "setCurrentPage_begin s = s\<lparr>fetching := True\<rparr>"

definition setCurrentPage ::
  "'v view_model \<Rightarrow> jsval \<Rightarrow> 'v component \<Rightarrow> 'v component outcome" where
  "setCurrentPage env newPage s =
     (if fetching s then Resolved s
      else
        let s1 = setCurrentPage_begin s;
            isNextRecordExist = existsRecordOn env (records s1) newPage
        in if \<not> isNextRecordExist
           then
             (case load env newPage s1 of
                Rejected s2 \<Rightarrow> Rejected s2
              | Resolved s2 \<Rightarrow>
                  Resolved (setCurrentPage_finish env newPage
                              (existsRecordOn env (records s2) newPage) s2))
           else Resolved (setCurrentPage_finish env newPage isNextRecordExist s1))"

definition goToNext :: "'v view_model \<Rightarrow> 'v component \<Rightarrow> 'v component outcome" where
  "goToNext env s =
     setCurrentPage env (js_add (string_to_number env) (currentPage s) (Number 1)) s"

definition mounted :: "'v component \<Rightarrow> 'v component" where
  "mounted s =
     s\<lparr>subscriptions := subscriptions s @
          [''go-to-next-page'', ''go-to-prev-page'', ''status-filter-changed'',
           ''search-filter-changed'']\<rparr>"

definition beforeDestroy :: "'v component \<Rightarrow> 'v component" where
  "beforeDestroy s =
     log NotifyClear
       (s\<lparr>subscriptions :=
            filter (\<lambda>n. n \<notin> {''go-to-next-page'', ''go-to-prev-page'',
                             ''status-filter-changed'', ''search-filter-changed''})
              (subscriptions s)\<rparr>)"

text \<open>The listeners that \<^verbatim>\<open>mounted()\<close> registers on \<^verbatim>\<open>$root\<close>.\<close>

datatype root_message =
    GoToNextPage
  | GoToPrevPage
  | StatusFilterChanged jsval
  | SearchFilterChanged jsval

fun message_name :: "root_message \<Rightarrow> string" where
  "message_name GoToNextPage = ''go-to-next-page''"
| "message_name GoToPrevPage = ''go-to-prev-page''"
| "message_name (StatusFilterChanged _) = ''status-filter-changed''"
| "message_name (SearchFilterChanged _) = ''search-filter-changed''"

fun listener :: "'v view_model \<Rightarrow> root_message \<Rightarrow> 'v component \<Rightarrow> 'v component outcome" where
  "listener env GoToNextPage s =
     setCurrentPage env (js_add (string_to_number env) (currentPage s) (Number 1)) s"
| "listener env GoToPrevPage s =
     setCurrentPage env (js_sub (string_to_number env) (currentPage s) (Number 1)) s"
| "listener env (StatusFilterChanged newStatus) s = onStatusFilterChanged env newStatus s"
| "listener env (SearchFilterChanged newSearchValue) s =
     onSearchFilterChanged env newSearchValue s"

definition on_root :: "'v view_model \<Rightarrow> root_message \<Rightarrow> 'v component \<Rightarrow> 'v component outcome" where
  "on_root env m s =
     (if message_name m \<in> set (subscriptions s) then listener env m s else Resolved s)"



section \<open>The question form: \<^verbatim>\<open>QuestionsFormComponent\<close>\<close>

subsection \<open>What the component imports\<close>

text \<open>
  The record passed as a prop and the view model (\<^verbatim>\<open>useQuestionFormViewModel\<close>) are
  imported; \<open>'r\<close> is the record, read through its getters and changed by the awaited
  calls of the view model. \<^verbatim>\<open>saveDraft\<close> is called without \<^verbatim>\<open>await\<close>: the call is
  recorded, and what it does to the record arrives later as a change of the record.
\<close>

record 'r form_model =
  isSubmitted :: "'r \<Rightarrow> bool"
  isModified :: "'r \<Rightarrow> bool"
  record_questionAreCompletedCorrectly :: "'r \<Rightarrow> bool"
  initialize :: "'r \<Rightarrow> 'r"
  saveDraftImmediately :: "'r \<Rightarrow> 'r outcome"
  submit :: "'r \<Rightarrow> 'r outcome"
  discard :: "'r \<Rightarrow> 'r outcome"
  clear :: "'r \<Rightarrow> 'r outcome"

datatype form_event = OnQuestionFormTouched bool | OnSubmitResponses | OnDiscardResponses

datatype 'r form_effect =
    VmInitialize
  | VmSaveDraft 'r
  | VmSaveDraftImmediately 'r
  | VmSubmit 'r
  | VmDiscard 'r
  | VmClear 'r
  | Emit form_event
  | RootEmitAreResponsesUntouched bool
  | PreventDefault
  | StopPropagation

record key_event =
  code :: string
  shiftKey :: bool
  ctrlKey :: bool
  metaKey :: bool

subsection \<open>Data\<close>

record 'r form =
  record_prop :: 'r
  isFormTouched :: bool
  keydown_listener :: bool
  form_effects :: "'r form_effect list"

definition form_data :: "'r \<Rightarrow> 'r form" where
  "form_data r =
     \<lparr> record_prop = r, isFormTouched = False, keydown_listener = False, form_effects = [] \<rparr>"

definition form_log :: "'r form_effect \<Rightarrow> 'r form \<Rightarrow> 'r form" where
  "form_log e s = s\<lparr>form_effects := form_effects s @ [e]\<rparr>"

subsection \<open>Computed properties\<close>

definition questionAreCompletedCorrectly :: "'r form_model \<Rightarrow> 'r form \<Rightarrow> bool" where
  "questionAreCompletedCorrectly env s = record_questionAreCompletedCorrectly env (record_prop s)"

definition isSubmitButtonDisabled :: "'r form_model \<Rightarrow> 'r form \<Rightarrow> bool" where
  "isSubmitButtonDisabled env s =
     (if isSubmitted env (record_prop s)
      then \<not> isFormTouched s \<or> \<not> questionAreCompletedCorrectly env s
      else \<not> questionAreCompletedCorrectly env s)"

subsection \<open>Methods\<close>

definition emitIsQuestionsFormTouched :: "bool \<Rightarrow> 'r form \<Rightarrow> 'r form" where
  "emitIsQuestionsFormTouched isFormTouched' s =
     form_log (RootEmitAreResponsesUntouched (\<not> isFormTouched'))
       (form_log (Emit (OnQuestionFormTouched isFormTouched')) s)"

definition onDiscard :: "'r form_model \<Rightarrow> 'r form \<Rightarrow> 'r form outcome" where
  "onDiscard env s =
     (let s1 = form_log (VmDiscard (record_prop s)) s
      in case discard env (record_prop s) of
           Rejected r \<Rightarrow> Rejected (s1\<lparr>record_prop := r\<rparr>)
         | Resolved r \<Rightarrow> Resolved (form_log (Emit OnDiscardResponses) (s1\<lparr>record_prop := r\<rparr>)))"

definition onSubmit :: "'r form_model \<Rightarrow> 'r form \<Rightarrow> 'r form outcome" where
  "onSubmit env s =
     (if \<not> questionAreCompletedCorrectly env s then Resolved s
      else
        let s1 = form_log (VmSubmit (record_prop s)) s
        in case submit env (record_prop s) of
             Rejected r \<Rightarrow> Rejected (s1\<lparr>record_prop := r\<rparr>)
           | Resolved r \<Rightarrow> Resolved (form_log (Emit OnSubmitResponses) (s1\<lparr>record_prop := r\<rparr>)))"

definition onClear :: "'r form_model \<Rightarrow> 'r form \<Rightarrow> 'r form outcome" where
  "onClear env s =
     (let s1 = form_log (VmClear (record_prop s)) s
      in case clear env (record_prop s) of
           Rejected r \<Rightarrow> Rejected (s1\<lparr>record_prop := r\<rparr>)
         | Resolved r \<Rightarrow> Resolved (s1\<lparr>record_prop := r\<rparr>))"

definition onSaveDraftImmediately :: "'r form_model \<Rightarrow> 'r form \<Rightarrow> 'r form outcome" where
  "onSaveDraftImmediately env s =
     (let s1 = form_log (VmSaveDraftImmediately (record_prop s)) s
      in case saveDraftImmediately env (record_prop s) of
           Rejected r \<Rightarrow> Rejected (s1\<lparr>record_prop := r\<rparr>)
         | Resolved r \<Rightarrow> Resolved (s1\<lparr>record_prop := r\<rparr>))"

definition onPressKeyboardShortCut ::
  "'r form_model \<Rightarrow> key_event \<Rightarrow> 'r form \<Rightarrow> 'r form outcome" where
  "onPressKeyboardShortCut env event s =
     (if code event = ''KeyS''
      then (if ctrlKey event \<or> metaKey event
            then onSaveDraftImmediately env (form_log StopPropagation (form_log PreventDefault s))
            else Resolved s)
      else if code event = ''Enter''
      then (if shiftKey event then onSubmit env s else Resolved s)
      else if code event = ''Space''
      then (if shiftKey event then onClear env s else Resolved s)
      else if code event = ''Backspace''
      then (if shiftKey event then onDiscard env s else Resolved s)
      else Resolved s)"

subsection \<open>Watchers and lifecycle\<close>

definition watch_isFormTouched :: "'r form_model \<Rightarrow> bool \<Rightarrow> 'r form \<Rightarrow> 'r form" where
  "watch_isFormTouched env isFormTouched' s =
     (if isSubmitted env (record_prop s) then emitIsQuestionsFormTouched isFormTouched' s
      else s)"

definition watch_record :: "'r form_model \<Rightarrow> 'r form \<Rightarrow> 'r form" where
  "watch_record env s =
     (let s1 = (if isModified env (record_prop s) then form_log (VmSaveDraft (record_prop s)) s
                else s)
      in s1\<lparr>isFormTouched := isModified env (record_prop s1)\<rparr>)"

definition form_created :: "'r form_model \<Rightarrow> 'r form \<Rightarrow> 'r form" where
  "form_created env s = form_log VmInitialize (s\<lparr>record_prop := initialize env (record_prop s)\<rparr>)"

definition form_mounted :: "'r form \<Rightarrow> 'r form" where
  "form_mounted s = s\<lparr>keydown_listener := True\<rparr>"

definition destroyed :: "'r form \<Rightarrow> 'r form" where
  "destroyed s = (emitIsQuestionsFormTouched False s)\<lparr>keydown_listener := False\<rparr>"

text \<open>
  A deep change of the record prop: the record watcher runs, and the watcher of
  \<^verbatim>\<open>isFormTouched\<close> runs after it when the handler has changed that flag.
\<close>

definition record_changed :: "'r form_model \<Rightarrow> 'r \<Rightarrow> 'r form \<Rightarrow> 'r form" where
  "record_changed env r s =
     (let s0 = s\<lparr>record_prop := r\<rparr>;
          s1 = watch_record env s0
      in if isFormTouched s1 \<noteq> isFormTouched s0
         then watch_isFormTouched env (isFormTouched s1) s1
         else s1)"

subsection \<open>The form inside the record page\<close>

text \<open>The listeners that the template of the record page puts on the form's events.\<close>

fun on_form_event :: "'v view_model \<Rightarrow> form_event \<Rightarrow> 'v component \<Rightarrow> 'v component outcome" where
  "on_form_event env (OnQuestionFormTouched isTouched) p = Resolved (onQuestionFormTouched isTouched p)"
| "on_form_event env OnSubmitResponses p = goToNext env p"
| "on_form_event env OnDiscardResponses p = goToNext env p"

text \<open>The values of \<^verbatim>\<open>on-question-form-touched\<close> among the effects of the form, in order.\<close>

fun touched_emitted :: "'r form_effect list \<Rightarrow> bool list" where
  "touched_emitted [] = []"
| "touched_emitted (Emit (OnQuestionFormTouched b) # es) = b # touched_emitted es"
| "touched_emitted (_ # es) = touched_emitted es"

text \<open>The record page after its listener has received these values.\<close>

definition receive_touched :: "bool list \<Rightarrow> 'v component \<Rightarrow> 'v component" where
  "receive_touched bs p = fold onQuestionFormTouched bs p"

section \<open>The awaits of \<^verbatim>\<open>fetch\<close> and \<^verbatim>\<open>setCurrentPage\<close>\<close>

text \<open>
  The two methods again, with each \<^verbatim>\<open>await this.loadRecords(...)\<close> as a point where
  the method is suspended. \<open>Await s p k\<close> is a method suspended in the state \<open>s\<close>, with the
  pending call \<open>p\<close> of the view model, which continues as \<open>k c\<close> from the state \<open>c\<close> that
  the component has when the call has resolved: what the method reads from \<^verbatim>\<open>this\<close>
  after the \<^verbatim>\<open>await\<close> is read from \<open>c\<close>, what it has in local variables is kept.
\<close>

datatype 'v task =
    Done "'v component"
  | Await "'v component" "'v \<Rightarrow> 'v outcome" "'v component \<Rightarrow> 'v task"

definition await_load ::
  "'v view_model \<Rightarrow> jsval \<Rightarrow> 'v component \<Rightarrow> ('v component \<Rightarrow> 'v task) \<Rightarrow> 'v task" where
  "await_load env page s k =
     Await (log (VmLoadRecords (datasetId s) page (recordStatusToFilterWith s)
                   (searchTextToFilterWith s)) s)
       (loadRecords env (datasetId s) page (recordStatusToFilterWith s)
          (searchTextToFilterWith s))
       k"

definition fetch_task :: "'v view_model \<Rightarrow> 'v component \<Rightarrow> 'v task" where
  "fetch_task env s =
     (if fetching s then Done s
      else
        let s1 = fetch_begin env s in
        await_load env (currentPage s1) s1
          (\<lambda>s2.
            let isRecordExistForCurrentPage = existsRecordOn env (records s2) (currentPage s2)
            in if \<not> isRecordExistForCurrentPage \<and> \<not> strict_eq (currentPage s2) (Number 1)
               then
                 (let s3 = s2\<lparr>currentPage := Number 1\<rparr> in
                  await_load env (currentPage s3) s3 (\<lambda>s4. Done (s4\<lparr>fetching := False\<rparr>)))
               else Done (s2\<lparr>fetching := False\<rparr>)))"

definition setCurrentPage_task :: "'v view_model \<Rightarrow> jsval \<Rightarrow> 'v component \<Rightarrow> 'v task" where
  "setCurrentPage_task env newPage s =
     (if fetching s then Done s
      else
        let s1 = setCurrentPage_begin s;
            isNextRecordExist = existsRecordOn env (records s1) newPage
        in if \<not> isNextRecordExist
           then
             await_load env newPage s1
               (\<lambda>s2. Done (setCurrentPage_finish env newPage
                              (existsRecordOn env (records s2) newPage) s2))
           else Done (setCurrentPage_finish env newPage isNextRecordExist s1))"

text \<open>
  A task run to its end with nothing else in between: every pending call is applied to
  the records as they are, and a rejection ends the method where it is.
\<close>

primrec complete :: "'v task \<Rightarrow> 'v component outcome" where
  "complete (Done s) = Resolved s"
| "complete (Await s p k) =
     (case p (records s) of
        Resolved v \<Rightarrow> complete (k (s\<lparr>records := v\<rparr>))
      | Rejected v \<Rightarrow> Rejected (s\<lparr>records := v\<rparr>))"

text \<open>
  The flag \<^verbatim>\<open>fetching\<close> is up in every state in which the task is suspended, as long
  as it is still up in the state from which the task continues.
\<close>

primrec suspended_with_flag :: "'v task \<Rightarrow> bool" where
  "suspended_with_flag (Done s) = True"
| "suspended_with_flag (Await s p k) =
     (fetching s \<and> (\<forall>c. fetching c \<longrightarrow> suspended_with_flag (k c)))"

text \<open>The calls of the view model that clear or load records, among the effects.\<close>

fun is_fetch_call :: "effect \<Rightarrow> bool" where
  "is_fetch_call VmClearRecords = True"
| "is_fetch_call (VmLoadRecords ds page status search) = True"
| "is_fetch_call _ = False"

definition fetch_calls :: "effect list \<Rightarrow> effect list" where
  "fetch_calls es = filter is_fetch_call es"

text \<open>
  What can reach the component while one of its methods is suspended: an event on
  \<^verbatim>\<open>$root\<close>, an event of the form, a click on the button of a notification or its
  closing, and a call of the fetch hook.
\<close>

datatype arrival =
    FromRoot root_message
  | FromForm form_event
  | FromNotification action
  | CallFetch

fun arrive :: "'v view_model \<Rightarrow> arrival \<Rightarrow> 'v component \<Rightarrow> 'v component outcome" where
  "arrive env (FromRoot m) s = on_root env m s"
| "arrive env (FromForm e) s = on_form_event env e s"
| "arrive env (FromNotification a) s = run_action env a s"
| "arrive env CallFetch s = fetch env s"

fun arrive_all :: "'v view_model \<Rightarrow> arrival list \<Rightarrow> 'v component \<Rightarrow> 'v component outcome" where
  "arrive_all env [] s = Resolved s"
| "arrive_all env (a # as) s =
     (case arrive env a s of
        Resolved s' \<Rightarrow> arrive_all env as s'
      | Rejected s' \<Rightarrow> Rejected s')"

section \<open>A small instance\<close>

text \<open>
  A view model over the list of pages whose record is loaded: the server holds a record
  on the pages 1 and 2, whatever the filters are, and every load resolves.
\<close>

definition example_model :: "jsval list view_model" where
  "example_model =
     \<lparr> PENDING = ''PENDING'',
       string_to_number = (\<lambda>s. if s = ''2'' then Some 2 else if s = ''7'' then Some 7 else None),
       translate = (\<lambda>k. k),
       existsRecordOn = (\<lambda>v page. page \<in> set v),
       records_total = (\<lambda>v. Number (int (length v))),
       clearRecords = (\<lambda>v. []),
       loadRecords = (\<lambda>ds page status search v.
          Resolved (if page = Number 1 \<or> page = Number 2 then page # v else v)),
       loadMetrics = (\<lambda>ds v. v) \<rparr>"

text \<open>The record page on page 1 of the pending queue, with the record of that page loaded.\<close>

definition example_page :: "jsval list component" where
  "example_page =
     \<lparr> datasetId = ''ds'', questionFormTouched = False,
       recordStatusToFilterWith = Str ''pending'', searchTextToFilterWith = Str [],
       currentPage = Number 1, fetching = False, records = [Number 1],
       route_query = (\<lambda>k. Undefined), subscriptions = [], effects = [] \<rparr>"

text \<open>
  A record of the form as the three getters the form reads; the calls of the view model
  resolve, and submitting marks the record as submitted and unmodified.
\<close>

record example_record =
  submitted :: bool
  modified :: bool
  completed :: bool

definition example_form_model :: "example_record form_model" where
  "example_form_model =
     \<lparr> isSubmitted = submitted, isModified = modified,
       record_questionAreCompletedCorrectly = completed,
       initialize = (\<lambda>r. r),
       saveDraftImmediately = (\<lambda>r. Resolved r),
       submit = (\<lambda>r. Resolved (r\<lparr>submitted := True, modified := False\<rparr>)),
       discard = (\<lambda>r. Resolved r),
       clear = (\<lambda>r. Resolved r) \<rparr>"

section \<open>Supporting lemmas\<close>

lemma toLowerCase_PENDING: "toLowerCase ''PENDING'' = ''pending''"
  by code_simp

lemma touched_emitted_append:
  "touched_emitted (xs @ ys) = touched_emitted xs @ touched_emitted ys"
  by (induction xs rule: touched_emitted.induct) simp_all

text \<open>
  A run of \<^verbatim>\<open>fetch\<close> completes whenever the loads of the view model resolve, and the
  flag is down again afterwards.
\<close>

lemma fetch_resolves:
  assumes "\<And>ds page status search v. \<exists>v'. loadRecords env ds page status search v = Resolved v'"
  shows "\<exists>s'. fetch env s = Resolved s' \<and> (\<not> fetching s \<longrightarrow> \<not> fetching s')"
proof (cases "fetching s")
  case True
  then show ?thesis by (simp add: fetch_def)
next
  case False
  let ?s1 = "fetch_begin env s"
  obtain v1 where v1: "loadRecords env (datasetId ?s1) (currentPage ?s1)
      (recordStatusToFilterWith ?s1) (searchTextToFilterWith ?s1) (records ?s1) = Resolved v1"
    using assms by blast
  obtain v2 where v2: "loadRecords env (datasetId ?s1) (Number 1)
      (recordStatusToFilterWith ?s1) (searchTextToFilterWith ?s1) v1 = Resolved v2"
    using assms by blast
  from False v1 v2 show ?thesis
    by (simp add: fetch_def load_def log_def fetch_begin_def Let_def)
qed

text \<open>
  A rejected load leaves the flag up: the assignment \<^verbatim>\<open>this.fetching = false\<close> is
  not reached.
\<close>

lemma fetch_rejected_fetching:
  "fetch env s = Rejected s' \<Longrightarrow> fetching s'"
  by (auto simp add: fetch_def fetch_begin_def load_def log_def Let_def
        split: if_splits outcome.splits)

text \<open>
  Among the methods of the form, only \<^verbatim>\<open>emitIsQuestionsFormTouched\<close> emits
  \<^verbatim>\<open>on-question-form-touched\<close>: the handlers of the buttons and of the keyboard do not.
\<close>

lemma onPressKeyboardShortCut_emits_no_touched:
  "onPressKeyboardShortCut env event s = Resolved s' \<or>
   onPressKeyboardShortCut env event s = Rejected s' \<Longrightarrow>
     touched_emitted (form_effects s') = touched_emitted (form_effects s)"
  by (auto simp add: onPressKeyboardShortCut_def onSaveDraftImmediately_def onSubmit_def
        onClear_def onDiscard_def form_log_def touched_emitted_append Let_def
        split: if_splits outcome.splits)


lemma fetch_page_ok:
  assumes "fetch env s = Resolved s'"
      and "fetching s \<longrightarrow> existsRecordOn env (records s) (currentPage s) \<or> currentPage s = Number 1"
  shows "existsRecordOn env (records s') (currentPage s') \<or> currentPage s' = Number 1"
  using assms
  by (auto simp add: fetch_def fetch_begin_def load_def log_def strict_eq_def Let_def
        split: if_splits outcome.splits)

text \<open>
  The two filter methods set the current page to 1 before they call \<^verbatim>\<open>$fetch\<close>, so
  after them a record exists on the current page or the current page is 1, also when the
  call of \<^verbatim>\<open>$fetch\<close> was ignored by the guard.
\<close>

lemma applyStatusFilter_page_ok:
  assumes "applyStatusFilter env status s = Resolved s'"
  shows "existsRecordOn env (records s') (currentPage s') \<or> currentPage s' = Number 1"
proof -
  let ?s2 = "s\<lparr>currentPage := Number 1, recordStatusToFilterWith := status\<rparr>"
  from assms obtain s3 where f: "fetch env ?s2 = Resolved s3"
    and r: "s' = checkAndEmitTotalRecords (searchTextToFilterWith s3)
                   (records_total env (records s3)) s3"
    by (auto simp add: applyStatusFilter_def Let_def split: outcome.splits)
  have "existsRecordOn env (records s3) (currentPage s3) \<or> currentPage s3 = Number 1"
    using fetch_page_ok [OF f] by simp
  with r show ?thesis
    by (simp add: checkAndEmitTotalRecords_def log_def)
qed

lemma applySearchFilter_page_ok:
  assumes "applySearchFilter env searchFilter s = Resolved s'"
  shows "existsRecordOn env (records s') (currentPage s') \<or> currentPage s' = Number 1"
proof -
  let ?s2 = "s\<lparr>currentPage := Number 1, searchTextToFilterWith := searchFilter\<rparr>"
  from assms obtain s3 where f: "fetch env ?s2 = Resolved s3"
    and r: "s' = checkAndEmitTotalRecords searchFilter (records_total env (records s3)) s3"
    by (auto simp add: applySearchFilter_def Let_def split: outcome.splits)
  have "existsRecordOn env (records s3) (currentPage s3) \<or> currentPage s3 = Number 1"
    using fetch_page_ok [OF f] by simp
  with r show ?thesis
    by (simp add: checkAndEmitTotalRecords_def log_def)
qed


text \<open>
  The two methods with their awaits made explicit are the methods: run to the end, a task
  gives what the method gives, also when a load rejects.
\<close>

lemma complete_fetch_task: "complete (fetch_task env s) = fetch env s"
  by (simp add: fetch_task_def fetch_def await_load_def load_def log_def Let_def
        split: outcome.splits)

lemma complete_setCurrentPage_task:
  "complete (setCurrentPage_task env newPage s) = setCurrentPage env newPage s"
  by (simp add: setCurrentPage_task_def setCurrentPage_def await_load_def load_def log_def Let_def
        split: outcome.splits)

lemma fetch_task_flag: "suspended_with_flag (fetch_task env s)"
  by (simp add: fetch_task_def await_load_def fetch_begin_def log_def Let_def)

lemma setCurrentPage_task_flag: "suspended_with_flag (setCurrentPage_task env newPage s)"
  by (simp add: setCurrentPage_task_def await_load_def setCurrentPage_begin_def log_def Let_def)

lemma fetch_calls_append: "fetch_calls (xs @ ys) = fetch_calls xs @ fetch_calls ys"
  by (simp add: fetch_calls_def)

lemma fetch_ignored: "fetching s \<Longrightarrow> fetch env s = Resolved s"
  by (simp add: fetch_def)

lemma setCurrentPage_ignored: "fetching s \<Longrightarrow> setCurrentPage env newPage s = Resolved s"
  by (simp add: setCurrentPage_def)

lemma arrive_while_fetching:
  assumes "fetching s"
  shows "\<exists>s'. arrive env a s = Resolved s' \<and> fetching s' \<and> records s' = records s
           \<and> fetch_calls (effects s') = fetch_calls (effects s)"
proof (cases a)
  case (FromRoot m)
  with assms show ?thesis
    by (cases m)
       (simp_all add: on_root_def onStatusFilterChanged_def onSearchFilterChanged_def
          applyStatusFilter_def applySearchFilter_def fetch_ignored setCurrentPage_ignored
          checkAndEmitTotalRecords_def log_def fetch_calls_append fetch_calls_def Let_def)
next
  case (FromForm e)
  with assms show ?thesis
    by (cases e)
       (simp_all add: onQuestionFormTouched_def goToNext_def setCurrentPage_ignored)
next
  case (FromNotification c)
  with assms show ?thesis
    by (cases c)
       (simp_all add: applyStatusFilter_def applySearchFilter_def fetch_ignored
          emitResetStatusFilter_def emitResetSearchFilter_def
          checkAndEmitTotalRecords_def log_def fetch_calls_append fetch_calls_def Let_def)
next
  case CallFetch
  with assms show ?thesis
    by (simp add: fetch_ignored)
qed

lemma arrive_all_while_fetching:
  "fetching s \<Longrightarrow>
     \<exists>s'. arrive_all env as s = Resolved s' \<and> fetching s' \<and> records s' = records s
          \<and> fetch_calls (effects s') = fetch_calls (effects s)"
proof (induction as arbitrary: s)
  case Nil
  then show ?case by simp
next
  case (Cons a as)
  from arrive_while_fetching [OF Cons.prems, of env a]
  obtain s1 where s1: "arrive env a s = Resolved s1" "fetching s1" "records s1 = records s"
      "fetch_calls (effects s1) = fetch_calls (effects s)"
    by blast
  from Cons.IH [OF s1(2)]
  obtain s' where "arrive_all env as s1 = Resolved s'" "fetching s'" "records s' = records s1"
      "fetch_calls (effects s') = fetch_calls (effects s1)"
    by blast
  with s1 show ?case by simp
qed


section \<open>The claims\<close>

text \<open>
  Every method is taken as running from its call to its end without another handler in
  between; the states in which an \<^verbatim>\<open>await\<close> of \<^verbatim>\<open>fetch\<close> or of
  \<^verbatim>\<open>setCurrentPage\<close> is pending are those in which \<^verbatim>\<open>fetching\<close> is set.
\<close>

text \<open>
  C1. Submission is blocked until the questions are completed: while
  \<^verbatim>\<open>record.questionAreCompletedCorrectly()\<close> is false the submit button is disabled and
  \<^verbatim>\<open>onSubmit\<close>, also when reached by Shift+Enter, returns without calling
  \<^verbatim>\<open>submit\<close> and without emitting. Once it is true, \<^verbatim>\<open>onSubmit\<close> calls \<^verbatim>\<open>submit\<close>
  on the record and, when that resolves, emits \<^verbatim>\<open>on-submit-responses\<close>; the button is
  then disabled only for a submitted record whose form is untouched.
\<close>

theorem submit_blocked_until_completed:
  "(\<not> questionAreCompletedCorrectly env s \<longrightarrow>
      isSubmitButtonDisabled env s \<and> onSubmit env s = Resolved s
      \<and> onPressKeyboardShortCut env
           \<lparr>code = ''Enter'', shiftKey = True, ctrlKey = c, metaKey = m\<rparr> s = Resolved s)
   \<and> (questionAreCompletedCorrectly env s \<longrightarrow>
        isSubmitButtonDisabled env s = (isSubmitted env (record_prop s) \<and> \<not> isFormTouched s)
        \<and> (\<forall>r. submit env (record_prop s) = Resolved r \<longrightarrow>
              onSubmit env s =
                Resolved (s\<lparr>record_prop := r,
                            form_effects := form_effects s @
                              [VmSubmit (record_prop s), Emit OnSubmitResponses]\<rparr>)))"
  by (simp add: isSubmitButtonDisabled_def onSubmit_def onPressKeyboardShortCut_def
      form_log_def Let_def)

theorem submit_blocked_until_completed_witness:
  "\<not> questionAreCompletedCorrectly example_form_model
       (form_data \<lparr>submitted = False, modified = True, completed = False\<rparr>)
   \<and> isSubmitButtonDisabled example_form_model
       (form_data \<lparr>submitted = False, modified = True, completed = False\<rparr>)
   \<and> onSubmit example_form_model (form_data \<lparr>submitted = False, modified = True, completed = False\<rparr>)
       = Resolved (form_data \<lparr>submitted = False, modified = True, completed = False\<rparr>)
   \<and> questionAreCompletedCorrectly example_form_model
       (form_data \<lparr>submitted = False, modified = True, completed = True\<rparr>)
   \<and> \<not> isSubmitButtonDisabled example_form_model
       (form_data \<lparr>submitted = False, modified = True, completed = True\<rparr>)
   \<and> onSubmit example_form_model (form_data \<lparr>submitted = False, modified = True, completed = True\<rparr>)
       = Resolved
           \<lparr> record_prop = \<lparr>submitted = True, modified = False, completed = True\<rparr>,
             isFormTouched = False, keydown_listener = False,
             form_effects =
               [VmSubmit \<lparr>submitted = False, modified = True, completed = True\<rparr>,
                Emit OnSubmitResponses] \<rparr>"
proof -
  let ?open = "form_data \<lparr>submitted = False, modified = True, completed = False\<rparr>"
  let ?done = "form_data \<lparr>submitted = False, modified = True, completed = True\<rparr>"
  have a: "\<not> questionAreCompletedCorrectly example_form_model ?open"
    by (simp add: questionAreCompletedCorrectly_def example_form_model_def form_data_def)
  have b: "questionAreCompletedCorrectly example_form_model ?done"
    by (simp add: questionAreCompletedCorrectly_def example_form_model_def form_data_def)
  have c: "submit example_form_model (record_prop ?done)
             = Resolved \<lparr>submitted = True, modified = False, completed = True\<rparr>"
    by (simp add: example_form_model_def form_data_def)
  from a b c
    submit_blocked_until_completed [where env = example_form_model and s = ?open]
    submit_blocked_until_completed [where env = example_form_model and s = ?done]
  show ?thesis
    by (simp add: example_form_model_def form_data_def)
qed

text \<open>
  C2. While the question form has unsaved changes (\<^verbatim>\<open>questionFormTouched\<close>), a new
  status (one that \<^verbatim>\<open>!==\<close> the active status) and a new search value (one that
  \<^verbatim>\<open>!==\<close> \<^verbatim>\<open>searchFilterFromQuery\<close>, the value the component compares with) are not
  applied: the only thing that happens is the dispatch of a warning notification, so the
  filters, the page, the loaded records and the flags are as before. The button of the
  notification runs \<^verbatim>\<open>applyStatusFilter\<close> or \<^verbatim>\<open>applySearchFilter\<close> with the new
  value; closing it only emits the reset event. A search value equal to
  \<^verbatim>\<open>searchFilterFromQuery\<close> changes nothing at all.
\<close>

theorem unsaved_changes_warning_first:
  assumes "questionFormTouched s"
  shows
   "(\<not> strict_eq (recordStatusToFilterWith s) newStatus \<longrightarrow>
       onStatusFilterChanged env newStatus s =
         Resolved (s\<lparr>effects := effects s @
           [Notify (unsaved_changes_warning env (ApplyStatusFilter newStatus)
              EmitResetStatusFilter)]\<rparr>))
    \<and> (\<not> strict_eq newSearchValue (searchFilterFromQuery s) \<longrightarrow>
       onSearchFilterChanged env newSearchValue s =
         Resolved (s\<lparr>effects := effects s @
           [Notify (unsaved_changes_warning env (ApplySearchFilter newSearchValue)
              EmitResetSearchFilter)]\<rparr>))
    \<and> (strict_eq newSearchValue (searchFilterFromQuery s) \<longrightarrow>
         onSearchFilterChanged env newSearchValue s = Resolved s)
    \<and> ntype (unsaved_changes_warning env click close) = ''warning''
    \<and> onClick (unsaved_changes_warning env click close) = Some click
    \<and> onClose (unsaved_changes_warning env click close) = Some close
    \<and> run_action env (ApplyStatusFilter newStatus) s' = applyStatusFilter env newStatus s'
    \<and> run_action env (ApplySearchFilter newSearchValue) s' =
          applySearchFilter env newSearchValue s'
    \<and> run_action env EmitResetStatusFilter s' =
          Resolved (s'\<lparr>effects := effects s' @ [RootEmit ResetStatusFilter]\<rparr>)
    \<and> run_action env EmitResetSearchFilter s' =
          Resolved (s'\<lparr>effects := effects s' @ [RootEmit ResetSearchFilter]\<rparr>)"
  using assms
  by (simp add: onStatusFilterChanged_def onSearchFilterChanged_def log_def
      unsaved_changes_warning_def emitResetStatusFilter_def emitResetSearchFilter_def)

theorem unsaved_changes_warning_first_witness:
  "questionFormTouched (example_page\<lparr>questionFormTouched := True\<rparr>)
   \<and> \<not> strict_eq (recordStatusToFilterWith (example_page\<lparr>questionFormTouched := True\<rparr>))
         (Str ''submitted'')
   \<and> onStatusFilterChanged example_model (Str ''submitted'')
        (example_page\<lparr>questionFormTouched := True\<rparr>) =
       Resolved (example_page\<lparr>questionFormTouched := True,
         effects :=
           [Notify \<lparr> message = ''changes_no_submit'',
                     buttonText = Some ''button.ignore_and_continue'',
                     numberOfChars = 500, ntype = ''warning'',
                     onClick = Some (ApplyStatusFilter (Str ''submitted'')),
                     onClose = Some EmitResetStatusFilter \<rparr>]\<rparr>)
   \<and> \<not> strict_eq (Str ''abc'') (searchFilterFromQuery (example_page\<lparr>questionFormTouched := True\<rparr>))
   \<and> onSearchFilterChanged example_model (Str ''abc'')
        (example_page\<lparr>questionFormTouched := True\<rparr>) =
       Resolved (example_page\<lparr>questionFormTouched := True,
         effects :=
           [Notify \<lparr> message = ''changes_no_submit'',
                     buttonText = Some ''button.ignore_and_continue'',
                     numberOfChars = 500, ntype = ''warning'',
                     onClick = Some (ApplySearchFilter (Str ''abc'')),
                     onClose = Some EmitResetSearchFilter \<rparr>]\<rparr>)"
proof -
  let ?s = "example_page\<lparr>questionFormTouched := True\<rparr>"
  have a: "questionFormTouched ?s" by simp
  have b: "\<not> strict_eq (recordStatusToFilterWith ?s) (Str ''submitted'')"
    by (simp add: strict_eq_def example_page_def)
  have c: "\<not> strict_eq (Str ''abc'') (searchFilterFromQuery ?s)"
    by (simp add: strict_eq_def searchFilterFromQuery_def nullish_def isNil_def example_page_def)
  from b c
    unsaved_changes_warning_first [OF a, where env = example_model
      and newStatus = "Str ''submitted''" and newSearchValue = "Str ''abc''"]
  show ?thesis
    by (simp add: unsaved_changes_warning_def example_model_def example_page_def)
qed

text \<open>
  C3 (as the code has it). A call of \<^verbatim>\<open>setCurrentPage\<close>, made while nothing is in
  flight, for a page without a record before the call, whose load resolves and leaves the
  page without a record, leaves \<^verbatim>\<open>currentPage\<close> and everything but the loaded records
  and the recorded call of the load as they were. The informational
  notification is dispatched exactly when the requested page is ahead of the current one
  (\<^verbatim>\<open>this.currentPage < newPage\<close>); for a page behind it nothing is dispatched.
\<close>

theorem setCurrentPage_no_record:
  assumes "\<not> fetching s"
      and "\<not> existsRecordOn env (records s) newPage"
      and "loadRecords env (datasetId s) newPage (recordStatusToFilterWith s)
             (searchTextToFilterWith s) (records s) = Resolved v"
      and "\<not> existsRecordOn env v newPage"
  shows "setCurrentPage env newPage s =
     Resolved (s\<lparr>records := v,
                 effects := effects s @
                   VmLoadRecords (datasetId s) newPage (recordStatusToFilterWith s)
                     (searchTextToFilterWith s)
                   # (if js_lt (string_to_number env) (currentPage s) newPage
                      then [Notify (no_more_data_notice s)] else [])\<rparr>)"
  using assms
  by (cases s)
     (simp add: setCurrentPage_def setCurrentPage_begin_def load_def log_def
        setCurrentPage_finish_def no_more_data_notice_def noMoreDataMessage_def Let_def)

theorem setCurrentPage_no_record_witness:
  "\<not> fetching example_page
   \<and> \<not> existsRecordOn example_model (records example_page) (Number 3)
   \<and> loadRecords example_model ''ds'' (Number 3) (Str ''pending'') (Str []) [Number 1]
        = Resolved [Number 1]
   \<and> js_lt (string_to_number example_model) (currentPage example_page) (Number 3)
   \<and> setCurrentPage example_model (Number 3) example_page =
       Resolved (example_page\<lparr>effects :=
         [VmLoadRecords ''ds'' (Number 3) (Str ''pending'') (Str []),
          Notify \<lparr> message = ''You'' @ [CHR 0x27]
                      @ ''ve reached the end of the data for the pending queue.'',
                    buttonText = None, numberOfChars = 57, ntype = ''info'',
                    onClick = None, onClose = None \<rparr>]\<rparr>)"
proof -
  have a: "\<not> fetching example_page"
    by (simp add: example_page_def)
  have b: "\<not> existsRecordOn example_model (records example_page) (Number 3)"
    by (simp add: example_page_def example_model_def)
  have c: "loadRecords example_model (datasetId example_page) (Number 3)
             (recordStatusToFilterWith example_page) (searchTextToFilterWith example_page)
             (records example_page) = Resolved [Number 1]"
    by (simp add: example_page_def example_model_def)
  have d: "\<not> existsRecordOn example_model [Number 1] (Number 3)"
    by (simp add: example_model_def)
  have e: "js_lt (string_to_number example_model) (currentPage example_page) (Number 3)"
    by (simp add: js_lt_def to_number_def example_page_def)
  from e setCurrentPage_no_record [OF a b c d] show ?thesis
    by (simp add: example_page_def example_model_def no_more_data_notice_def
        noMoreDataMessage_def to_string_def)
qed

text \<open>
  The claim as stated fails for a page behind the current one: on page 1,
  \<^verbatim>\<open>go-to-prev-page\<close> asks for page 0, no record is on page 0 after the load, and no
  notification is dispatched.
\<close>

theorem setCurrentPage_behind_counterexample:
  "\<not> fetching example_page
   \<and> \<not> existsRecordOn example_model [Number 1] (Number 0)
   \<and> js_sub (string_to_number example_model) (currentPage example_page) (Number 1) = Number 0
   \<and> setCurrentPage example_model (Number 0) example_page =
       Resolved (example_page\<lparr>effects :=
         [VmLoadRecords ''ds'' (Number 0) (Str ''pending'') (Str [])]\<rparr>)"
  by (simp add: setCurrentPage_def setCurrentPage_begin_def load_def log_def
        setCurrentPage_finish_def example_model_def example_page_def Let_def
        js_lt_def js_sub_def to_number_def)

text \<open>
  C4. While \<^verbatim>\<open>fetching\<close> is set, a call of \<^verbatim>\<open>fetch\<close> and a call of
  \<^verbatim>\<open>setCurrentPage\<close> return at once and leave the whole component as it is. The flag
  is set whenever one of the two methods waits for a load: each method is its task run to
  the end, and the flag is up in every state in which the task is suspended. While the
  flag is up, whatever reaches the component (the events on \<^verbatim>\<open>$root\<close>, the events of
  the form, the callbacks of a notification, a call of the fetch hook) returns without a
  call that clears or loads records, with the records as they were and the flag still up:
  no second fetch starts before the first has ended.
\<close>

theorem fetching_guard:
  "(fetching s \<longrightarrow> fetch env s = Resolved s \<and> setCurrentPage env newPage s = Resolved s)
   \<and> complete (fetch_task env s) = fetch env s
   \<and> complete (setCurrentPage_task env newPage s) = setCurrentPage env newPage s
   \<and> suspended_with_flag (fetch_task env s)
   \<and> suspended_with_flag (setCurrentPage_task env newPage s)
   \<and> (fetching s \<longrightarrow>
        (\<exists>s'. arrive_all env as s = Resolved s' \<and> fetching s' \<and> records s' = records s
              \<and> fetch_calls (effects s') = fetch_calls (effects s)))"
  using arrive_all_while_fetching [of s env as]
  by (simp add: fetch_ignored setCurrentPage_ignored complete_fetch_task
      complete_setCurrentPage_task fetch_task_flag setCurrentPage_task_flag)

theorem fetching_guard_witness:
  "fetching (setCurrentPage_begin example_page)
   \<and> fetch example_model (setCurrentPage_begin example_page)
       = Resolved (setCurrentPage_begin example_page)
   \<and> setCurrentPage example_model (Number 2) (setCurrentPage_begin example_page)
       = Resolved (setCurrentPage_begin example_page)
   \<and> arrive_all example_model
        [FromForm OnSubmitResponses, FromNotification (ApplyStatusFilter (Str ''submitted'')),
         CallFetch]
        (setCurrentPage_begin example_page)
       = Resolved (example_page\<lparr>recordStatusToFilterWith := Str ''submitted'', fetching := True,
                     effects := [RootEmit (TotalRecords Null)]\<rparr>)
   \<and> suspended_with_flag (setCurrentPage_task example_model (Number 2) example_page)
   \<and> suspended_with_flag (fetch_task example_model example_page)
   \<and> complete (setCurrentPage_task example_model (Number 2) example_page)
       = Resolved (example_page\<lparr>currentPage := Number 2, records := [Number 2, Number 1],
                     effects := [VmLoadRecords ''ds'' (Number 2) (Str ''pending'') (Str [])]\<rparr>)"
proof -
  let ?w = "setCurrentPage_begin example_page"
  have a: "fetching ?w"
    by (simp add: setCurrentPage_begin_def)
  have b: "arrive_all example_model
        [FromForm OnSubmitResponses, FromNotification (ApplyStatusFilter (Str ''submitted'')),
         CallFetch] ?w
       = Resolved (example_page\<lparr>recordStatusToFilterWith := Str ''submitted'', fetching := True,
                     effects := [RootEmit (TotalRecords Null)]\<rparr>)"
    by (simp add: goToNext_def setCurrentPage_def applyStatusFilter_def fetch_def
        checkAndEmitTotalRecords_def has_length_def log_def setCurrentPage_begin_def
        example_page_def)
  have c: "setCurrentPage example_model (Number 2) example_page
       = Resolved (example_page\<lparr>currentPage := Number 2, records := [Number 2, Number 1],
                     effects := [VmLoadRecords ''ds'' (Number 2) (Str ''pending'') (Str [])]\<rparr>)"
    by (simp add: setCurrentPage_def setCurrentPage_begin_def setCurrentPage_finish_def
        load_def log_def example_page_def example_model_def)
  from a b c
    fetching_guard [where s = ?w and env = example_model and newPage = "Number 2"]
    fetching_guard [where s = example_page and env = example_model and newPage = "Number 2"]
  show ?thesis
    by simp
qed

text \<open>
  C5. \<^verbatim>\<open>created()\<close> takes the view state from the URL query: the status filter is
  \<^verbatim>\<open>_status\<close>, or the lower-cased \<^verbatim>\<open>RECORD_STATUS.PENDING\<close> when \<^verbatim>\<open>_status\<close> is
  null or undefined; the search filter is \<^verbatim>\<open>_search\<close>, or the empty string; the
  current page is the numeric value of \<^verbatim>\<open>_page\<close>, or 1.
\<close>

theorem created_from_query:
  "recordStatusToFilterWith (created env s) =
     (if isNil (route_query s ''_status'') then Str (toLowerCase (PENDING env))
      else route_query s ''_status'')
   \<and> searchTextToFilterWith (created env s) =
     (if isNil (route_query s ''_search'') then Str [] else route_query s ''_search'')
   \<and> currentPage (created env s) =
     (if isNil (route_query s ''_page'') then Number 1
      else to_number (string_to_number env) (route_query s ''_page''))"
  by (simp add: created_def statusFilterFromQuery_def searchFilterFromQuery_def
      pageFromQuery_def nullish_def log_def Let_def)

theorem created_from_query_witness:
  "created example_model (data ''ds'' [] (\<lambda>k. Undefined)) =
     (data ''ds'' [] (\<lambda>k. Undefined))
       \<lparr>recordStatusToFilterWith := Str ''pending'', searchTextToFilterWith := Str [],
        currentPage := Number 1, effects := [VmLoadMetrics ''ds'']\<rparr>
   \<and> recordStatusToFilterWith (created example_model (data ''ds'' []
        (\<lambda>k. if k = ''_status'' then Str ''submitted'' else if k = ''_search'' then Str ''abc''
             else if k = ''_page'' then Str ''7'' else Undefined))) = Str ''submitted''
   \<and> searchTextToFilterWith (created example_model (data ''ds'' []
        (\<lambda>k. if k = ''_status'' then Str ''submitted'' else if k = ''_search'' then Str ''abc''
             else if k = ''_page'' then Str ''7'' else Undefined))) = Str ''abc''
   \<and> currentPage (created example_model (data ''ds'' []
        (\<lambda>k. if k = ''_status'' then Str ''submitted'' else if k = ''_search'' then Str ''abc''
             else if k = ''_page'' then Str ''7'' else Undefined))) = Number 7"
proof -
  let ?q = "\<lambda>k. if k = ''_status'' then Str ''submitted'' else if k = ''_search'' then Str ''abc''
             else if k = ''_page'' then Str ''7'' else Undefined"
  have a: "created example_model (data ''ds'' [] (\<lambda>k. Undefined)) =
     (data ''ds'' [] (\<lambda>k. Undefined))
       \<lparr>recordStatusToFilterWith := Str ''pending'', searchTextToFilterWith := Str [],
        currentPage := Number 1, effects := [VmLoadMetrics ''ds'']\<rparr>"
    by (simp add: created_def statusFilterFromQuery_def searchFilterFromQuery_def
        pageFromQuery_def nullish_def isNil_def log_def data_def example_model_def
        toLowerCase_PENDING)
  from a created_from_query [of example_model "data ''ds'' [] ?q"] show ?thesis
    by (simp add: isNil_def data_def to_number_def example_model_def)
qed

text \<open>
  C6 (as the code has it). An applied status filter and an applied search filter, when
  no fetch or page change is in flight and the load resolves: the current page is set to
  1, the filter to the new value, the records are cleared and then loaded for page 1 with
  the new filter, and after that the \<^verbatim>\<open>total-records\<close> event is emitted, with the
  total of the loaded records when the search filter has a length and with null otherwise.
\<close>

theorem apply_filter_refetches:
  assumes "\<not> fetching s"
  shows
   "(loadRecords env (datasetId s) (Number 1) status (searchTextToFilterWith s)
        (clearRecords env (records s)) = Resolved v \<longrightarrow>
      applyStatusFilter env status s =
        Resolved (s\<lparr>currentPage := Number 1, recordStatusToFilterWith := status, records := v,
           effects := effects s @
             [VmClearRecords,
              VmLoadRecords (datasetId s) (Number 1) status (searchTextToFilterWith s),
              RootEmit (TotalRecords
                (if has_length (searchTextToFilterWith s) then records_total env v
                 else Null))]\<rparr>))
    \<and> (loadRecords env (datasetId s) (Number 1) (recordStatusToFilterWith s) searchFilter
        (clearRecords env (records s)) = Resolved v' \<longrightarrow>
      applySearchFilter env searchFilter s =
        Resolved (s\<lparr>currentPage := Number 1, searchTextToFilterWith := searchFilter,
           records := v',
           effects := effects s @
             [VmClearRecords,
              VmLoadRecords (datasetId s) (Number 1) (recordStatusToFilterWith s) searchFilter,
              RootEmit (TotalRecords
                (if has_length searchFilter then records_total env v' else Null))]\<rparr>))"
  using assms
  by (cases s)
     (simp add: applyStatusFilter_def applySearchFilter_def fetch_def fetch_begin_def load_def
        log_def checkAndEmitTotalRecords_def strict_eq_def Let_def)

theorem apply_filter_refetches_witness:
  "\<not> fetching example_page
   \<and> applyStatusFilter example_model (Str ''submitted'') example_page =
       Resolved (example_page\<lparr>recordStatusToFilterWith := Str ''submitted'',
         effects :=
           [VmClearRecords,
            VmLoadRecords ''ds'' (Number 1) (Str ''submitted'') (Str []),
            RootEmit (TotalRecords Null)]\<rparr>)
   \<and> applySearchFilter example_model (Str ''abc'') (example_page\<lparr>currentPage := Number 2\<rparr>) =
       Resolved (example_page\<lparr>searchTextToFilterWith := Str ''abc'',
         effects :=
           [VmClearRecords,
            VmLoadRecords ''ds'' (Number 1) (Str ''pending'') (Str ''abc''),
            RootEmit (TotalRecords (Number 1))]\<rparr>)"
proof -
  have a: "\<not> fetching example_page"
    by (simp add: example_page_def)
  have b: "\<not> fetching (example_page\<lparr>currentPage := Number 2\<rparr>)"
    by (simp add: example_page_def)
  have c: "loadRecords example_model (datasetId example_page) (Number 1) (Str ''submitted'')
             (searchTextToFilterWith example_page)
             (clearRecords example_model (records example_page)) = Resolved [Number 1]"
    by (simp add: example_model_def)
  have d: "loadRecords example_model (datasetId (example_page\<lparr>currentPage := Number 2\<rparr>))
             (Number 1) (recordStatusToFilterWith (example_page\<lparr>currentPage := Number 2\<rparr>))
             (Str ''abc'')
             (clearRecords example_model (records (example_page\<lparr>currentPage := Number 2\<rparr>)))
           = Resolved [Number 1]"
    by (simp add: example_model_def)
  from a c d
    apply_filter_refetches [OF a, where env = example_model and status = "Str ''submitted''"
      and v = "[Number 1]"]
    apply_filter_refetches [OF b, where env = example_model and searchFilter = "Str ''abc''"
      and v' = "[Number 1]"]
  show ?thesis
    by (simp add: example_page_def example_model_def has_length_def)
qed

text \<open>
  The claim as stated fails for a filter applied while a page change is in flight: the
  call of \<^verbatim>\<open>$fetch\<close> is ignored, so the records are neither cleared nor loaded with
  the new filter, and the \<^verbatim>\<open>total-records\<close> event is emitted from the records of
  the old filter.
\<close>

theorem apply_filter_in_flight_counterexample:
  "fetching (setCurrentPage_begin example_page)
   \<and> applyStatusFilter example_model (Str ''submitted'') (setCurrentPage_begin example_page) =
     Resolved (example_page
       \<lparr>recordStatusToFilterWith := Str ''submitted'', fetching := True,
        effects := [RootEmit (TotalRecords Null)]\<rparr>)
   \<and> applySearchFilter example_model (Str ''abc'') (setCurrentPage_begin example_page) =
     Resolved (example_page
       \<lparr>searchTextToFilterWith := Str ''abc'', fetching := True,
        effects := [RootEmit (TotalRecords (Number 1))]\<rparr>)"
  by (simp add: applyStatusFilter_def applySearchFilter_def fetch_def setCurrentPage_begin_def
        log_def checkAndEmitTotalRecords_def has_length_def example_page_def example_model_def)

text \<open>
  C7. The handler of the record watcher, which runs on every deep change of the record:
  when \<^verbatim>\<open>record.isModified\<close> is true it calls \<^verbatim>\<open>saveDraft\<close> on the record, and in
  every case it sets \<^verbatim>\<open>isFormTouched\<close> to \<^verbatim>\<open>record.isModified\<close>.
\<close>

theorem watch_record_saves_draft:
  "form_effects (watch_record env s) =
     form_effects s @ (if isModified env (record_prop s) then [VmSaveDraft (record_prop s)] else [])
   \<and> record_prop (watch_record env s) = record_prop s
   \<and> isFormTouched (watch_record env s) = isModified env (record_prop s)
   \<and> isFormTouched (record_changed env r s) = isModified env r"
  by (simp add: record_changed_def watch_record_def watch_isFormTouched_def
      emitIsQuestionsFormTouched_def form_log_def Let_def)

theorem watch_record_saves_draft_witness:
  "watch_record example_form_model
      (form_data \<lparr>submitted = False, modified = True, completed = False\<rparr>) =
     \<lparr> record_prop = \<lparr>submitted = False, modified = True, completed = False\<rparr>,
       isFormTouched = True, keydown_listener = False,
       form_effects = [VmSaveDraft \<lparr>submitted = False, modified = True, completed = False\<rparr>] \<rparr>
   \<and> watch_record example_form_model
      (form_data \<lparr>submitted = False, modified = False, completed = False\<rparr>) =
     form_data \<lparr>submitted = False, modified = False, completed = False\<rparr>"
proof -
  let ?m = "form_data \<lparr>submitted = False, modified = True, completed = False\<rparr>"
  let ?u = "form_data \<lparr>submitted = False, modified = False, completed = False\<rparr>"
  have a: "isModified example_form_model (record_prop ?m)"
    by (simp add: example_form_model_def form_data_def)
  have b: "\<not> isModified example_form_model (record_prop ?u)"
    by (simp add: example_form_model_def form_data_def)
  have c: "keydown_listener (watch_record example_form_model ?m) = False"
          "keydown_listener (watch_record example_form_model ?u) = False"
    by (simp_all add: watch_record_def form_log_def form_data_def Let_def)
  from a b c
    watch_record_saves_draft [of example_form_model ?m]
    watch_record_saves_draft [of example_form_model ?u]
  show ?thesis
    by (cases "watch_record example_form_model ?m"; cases "watch_record example_form_model ?u")
       (simp add: form_data_def)
qed

text \<open>
  C8. A status-filter change to the status that is already active
  (\<^verbatim>\<open>this.recordStatusToFilterWith === newStatus\<close>) returns at once: the component,
  with its page, filters, records and dispatched notifications, is as before, also when
  the form is touched.
\<close>

theorem onStatusFilterChanged_active_status:
  "strict_eq (recordStatusToFilterWith s) newStatus \<Longrightarrow>
     onStatusFilterChanged env newStatus s = Resolved s"
  by (simp add: onStatusFilterChanged_def)

theorem onStatusFilterChanged_active_status_witness:
  "strict_eq (recordStatusToFilterWith (example_page\<lparr>questionFormTouched := True\<rparr>))
     (Str ''pending'')
   \<and> onStatusFilterChanged example_model (Str ''pending'')
        (example_page\<lparr>questionFormTouched := True\<rparr>)
       = Resolved (example_page\<lparr>questionFormTouched := True\<rparr>)"
proof -
  have a: "strict_eq (recordStatusToFilterWith (example_page\<lparr>questionFormTouched := True\<rparr>))
     (Str ''pending'')"
    by (simp add: strict_eq_def example_page_def)
  from a onStatusFilterChanged_active_status [OF a, of example_model] show ?thesis
    by simp
qed

text \<open>
  C9. The form tells the record page that it is touched only for a submitted record. The
  watcher of \<^verbatim>\<open>isFormTouched\<close> emits \<^verbatim>\<open>on-question-form-touched\<close>, with the new
  value of the flag, exactly when \<^verbatim>\<open>record.isSubmitted\<close> holds, and does nothing
  otherwise. A change of a record that is not submitted therefore emits no such event, and
  \<^verbatim>\<open>questionFormTouched\<close> of the record page, which only the listener of that event
  sets, stays as it is. \<^verbatim>\<open>destroyed()\<close> always emits the event with false.
\<close>

theorem touched_only_for_submitted:
  "touched_emitted (form_effects (watch_isFormTouched env isTouched s)) =
     touched_emitted (form_effects s) @ (if isSubmitted env (record_prop s) then [isTouched] else [])
   \<and> (\<not> isSubmitted env (record_prop s) \<longrightarrow> watch_isFormTouched env isTouched s = s)
   \<and> (\<not> isSubmitted env r \<longrightarrow>
        touched_emitted (form_effects (record_changed env r s)) = touched_emitted (form_effects s)
        \<and> receive_touched
            (drop (length (touched_emitted (form_effects s)))
               (touched_emitted (form_effects (record_changed env r s)))) p = p)
   \<and> form_effects (destroyed s) =
        form_effects s @ [Emit (OnQuestionFormTouched False), RootEmitAreResponsesUntouched True]
   \<and> touched_emitted (form_effects (destroyed s)) = touched_emitted (form_effects s) @ [False]"
  by (simp add: watch_isFormTouched_def emitIsQuestionsFormTouched_def record_changed_def
      watch_record_def destroyed_def form_log_def receive_touched_def touched_emitted_append
      Let_def)

theorem touched_only_for_submitted_witness:
  "\<not> isSubmitted example_form_model \<lparr>submitted = False, modified = True, completed = False\<rparr>
   \<and> record_changed example_form_model \<lparr>submitted = False, modified = True, completed = False\<rparr>
        (form_data \<lparr>submitted = False, modified = False, completed = False\<rparr>) =
       \<lparr> record_prop = \<lparr>submitted = False, modified = True, completed = False\<rparr>,
         isFormTouched = True, keydown_listener = False,
         form_effects = [VmSaveDraft \<lparr>submitted = False, modified = True, completed = False\<rparr>] \<rparr>
   \<and> touched_emitted (form_effects
        (record_changed example_form_model \<lparr>submitted = False, modified = True, completed = False\<rparr>
           (form_data \<lparr>submitted = False, modified = False, completed = False\<rparr>))) = []
   \<and> isSubmitted example_form_model \<lparr>submitted = True, modified = True, completed = True\<rparr>
   \<and> touched_emitted (form_effects
        (record_changed example_form_model \<lparr>submitted = True, modified = True, completed = True\<rparr>
           (form_data \<lparr>submitted = True, modified = False, completed = True\<rparr>))) = [True]
   \<and> touched_emitted (form_effects
        (destroyed (form_data \<lparr>submitted = False, modified = False, completed = False\<rparr>)))
       = [False]"
proof -
  let ?r = "\<lparr>submitted = False, modified = True, completed = False\<rparr>"
  let ?s = "form_data \<lparr>submitted = False, modified = False, completed = False\<rparr>"
  have a: "\<not> isSubmitted example_form_model ?r"
    by (simp add: example_form_model_def)
  have b: "touched_emitted (form_effects ?s) = []"
    by (simp add: form_data_def)
  have c: "record_changed example_form_model ?r ?s =
       \<lparr> record_prop = ?r, isFormTouched = True, keydown_listener = False,
         form_effects = [VmSaveDraft ?r] \<rparr>"
    by (simp add: record_changed_def watch_record_def watch_isFormTouched_def form_log_def
        form_data_def example_form_model_def Let_def)
  have d: "touched_emitted (form_effects
        (record_changed example_form_model \<lparr>submitted = True, modified = True, completed = True\<rparr>
           (form_data \<lparr>submitted = True, modified = False, completed = True\<rparr>))) = [True]"
    by (simp add: record_changed_def watch_record_def watch_isFormTouched_def form_log_def
        emitIsQuestionsFormTouched_def form_data_def example_form_model_def Let_def)
  from a b c d
    touched_only_for_submitted [where env = example_form_model and r = ?r and s = ?s
      and isTouched = True and p = example_page]
  show ?thesis
    by (simp add: example_form_model_def form_data_def)
qed

text \<open>
  C10. After a run of \<^verbatim>\<open>fetch\<close> that has completed, a record exists on the current
  page or the current page is 1. A run that passes the guard establishes this: when the
  first load finds no record on the current page and that page \<^verbatim>\<open>!== 1\<close>, the
  current page is set to 1 and the records are loaded once more, for page 1. A call
  ignored by the guard changes nothing and keeps it; the filter methods, the only callers
  of \<^verbatim>\<open>$fetch\<close> in the component, have set the current page to 1 by then.
\<close>

theorem fetch_page_invariant:
  assumes "fetch env s = Resolved s'"
      and "fetching s \<longrightarrow> existsRecordOn env (records s) (currentPage s) \<or> currentPage s = Number 1"
  shows "(existsRecordOn env (records s') (currentPage s') \<or> currentPage s' = Number 1)
     \<and> (\<forall>v1. \<not> fetching s
             \<and> loadRecords env (datasetId s) (currentPage s) (recordStatusToFilterWith s)
                 (searchTextToFilterWith s) (clearRecords env (records s)) = Resolved v1
             \<and> \<not> existsRecordOn env v1 (currentPage s)
             \<and> \<not> strict_eq (currentPage s) (Number 1)
          \<longrightarrow> loadRecords env (datasetId s) (Number 1) (recordStatusToFilterWith s)
                 (searchTextToFilterWith s) v1 = Resolved (records s')
              \<and> currentPage s' = Number 1 \<and> \<not> fetching s'
              \<and> effects s' = effects s @
                  [VmClearRecords,
                   VmLoadRecords (datasetId s) (currentPage s) (recordStatusToFilterWith s)
                     (searchTextToFilterWith s),
                   VmLoadRecords (datasetId s) (Number 1) (recordStatusToFilterWith s)
                     (searchTextToFilterWith s)])"
  using assms
  by (auto simp add: fetch_def fetch_begin_def load_def log_def strict_eq_def Let_def
        split: if_splits outcome.splits)

theorem fetch_page_invariant_witness:
  "fetch example_model (example_page\<lparr>currentPage := Number 7\<rparr>) =
     Resolved (example_page\<lparr>effects :=
       [VmClearRecords,
        VmLoadRecords ''ds'' (Number 7) (Str ''pending'') (Str []),
        VmLoadRecords ''ds'' (Number 1) (Str ''pending'') (Str [])]\<rparr>)
   \<and> \<not> fetching (example_page\<lparr>currentPage := Number 7\<rparr>)
   \<and> existsRecordOn example_model (records example_page) (currentPage example_page)
   \<and> fetch example_model (example_page\<lparr>currentPage := Number 2\<rparr>) =
     Resolved (example_page\<lparr>currentPage := Number 2, records := [Number 2],
       effects :=
         [VmClearRecords, VmLoadRecords ''ds'' (Number 2) (Str ''pending'') (Str [])]\<rparr>)
   \<and> existsRecordOn example_model [Number 2] (Number 2)"
proof -
  let ?t = "example_page\<lparr>effects :=
       [VmClearRecords,
        VmLoadRecords ''ds'' (Number 7) (Str ''pending'') (Str []),
        VmLoadRecords ''ds'' (Number 1) (Str ''pending'') (Str [])]\<rparr>"
  have a: "fetch example_model (example_page\<lparr>currentPage := Number 7\<rparr>) = Resolved ?t"
    by (simp add: fetch_def fetch_begin_def load_def log_def strict_eq_def
        example_page_def example_model_def)
  have b: "fetching (example_page\<lparr>currentPage := Number 7\<rparr>) \<longrightarrow>
      existsRecordOn example_model (records (example_page\<lparr>currentPage := Number 7\<rparr>))
        (currentPage (example_page\<lparr>currentPage := Number 7\<rparr>))
      \<or> currentPage (example_page\<lparr>currentPage := Number 7\<rparr>) = Number 1"
    by (simp add: example_page_def)
  have c: "fetch example_model (example_page\<lparr>currentPage := Number 2\<rparr>) =
     Resolved (example_page\<lparr>currentPage := Number 2, records := [Number 2],
       effects :=
         [VmClearRecords, VmLoadRecords ''ds'' (Number 2) (Str ''pending'') (Str [])]\<rparr>)"
    by (simp add: fetch_def fetch_begin_def load_def log_def strict_eq_def
        example_page_def example_model_def)
  from a c fetch_page_invariant [OF a b] show ?thesis
    by (simp add: example_page_def example_model_def)
qed

end
